theory Spec2Isabelle
  imports Main "HOL-Library.Sublist" "HOL-Library.AList"
begin

section \<open>Python values\<close>

text \<open>
  The module \<^verbatim>\<open>instructor/batch.py\<close> works on the values that \<^verbatim>\<open>json.loads\<close> returns and
  that \<^verbatim>\<open>model_dump_json\<close> prints: \<^verbatim>\<open>None\<close>, booleans, integers, floats, strings, lists and
  dictionaries with string keys. A string is a list of 8-bit characters, read as the code
  points U+0000 to U+00FF. The code never computes with a float, so a float is kept as the
  decimal \<open>m * 10 ^ e\<close> it was written as, or as one of the three non-finite values. A
  dictionary is an association list in insertion order with a key looked up by \<^const>\<open>map_of\<close>.
\<close>

datatype pyfloat = Decimal int int | NaN | PosInfinity | NegInfinity

datatype json =
    JNull
  | JBool bool
  | JInt int
  | JFloat pyfloat
  | JStr string
  | JArr "json list"
  | JObj "(string \<times> json) list"

type_synonym dict = "(string \<times> json) list"

text \<open>The exceptions the module can meet; each \<^verbatim>\<open>raise\<close> is the left injection of a sum.\<close>

datatype py_error =
    KeyError
  | IndexError
  | TypeError
  | ValueError
  | ValidationError
  | JSONDecodeError
  | FileNotFoundError

datatype subscript = Key string | Index nat

text \<open>
  \<^verbatim>\<open>x[k]\<close> for a string key and \<^verbatim>\<open>x[i]\<close> for a non-negative integer. A dictionary made from
  JSON has string keys only, so an integer subscript on it is a missing key; a string
  subscripted by an integer is the one-character string at that place.
\<close>

fun py_getitem :: "json \<Rightarrow> subscript \<Rightarrow> py_error + json" where
  "py_getitem (JObj kvs) (Key k) = (case map_of kvs k of None \<Rightarrow> Inl KeyError | Some v \<Rightarrow> Inr v)"
| "py_getitem (JObj kvs) (Index i) = Inl KeyError"
| "py_getitem (JArr xs) (Index i) = (if i < length xs then Inr (xs ! i) else Inl IndexError)"
| "py_getitem (JArr xs) (Key k) = Inl TypeError"
| "py_getitem (JStr s) (Index i) = (if i < length s then Inr (JStr [s ! i]) else Inl IndexError)"
| "py_getitem (JStr s) (Key k) = Inl TypeError"
| "py_getitem JNull _ = Inl TypeError"
| "py_getitem (JBool _) _ = Inl TypeError"
| "py_getitem (JInt _) _ = Inl TypeError"
| "py_getitem (JFloat _) _ = Inl TypeError"

text \<open>A chain of subscripts \<^verbatim>\<open>x[a][b][c]\<close>, evaluated left to right; the first failure is raised.\<close>

fun py_path :: "json \<Rightarrow> subscript list \<Rightarrow> py_error + json" where
  "py_path x [] = Inr x"
| "py_path x (s # ss) = (case py_getitem x s of Inl e \<Rightarrow> Inl e | Inr y \<Rightarrow> py_path y ss)"

text \<open>\<^verbatim>\<open>sub in s\<close> on two strings: \<open>sub\<close> occurs in \<open>s\<close> as a contiguous block.\<close>

fun str_contains :: "string \<Rightarrow> string \<Rightarrow> bool" where
  "str_contains sub [] = (sub = [])"
| "str_contains sub (c # cs) = (prefix sub (c # cs) \<or> str_contains sub cs)"

text \<open>
  \<^verbatim>\<open>k in x\<close> for a string \<open>k\<close>: key membership on a dictionary, element membership on a
  list, substring on a string, and a \<^verbatim>\<open>TypeError\<close> on a value that is not iterable.
\<close>

fun py_contains :: "string \<Rightarrow> json \<Rightarrow> py_error + bool" where
  "py_contains k (JObj kvs) = Inr (k \<in> set (map fst kvs))"
| "py_contains k (JArr xs) = Inr (JStr k \<in> set xs)"
| "py_contains k (JStr s) = Inr (str_contains k s)"
| "py_contains k JNull = Inl TypeError"
| "py_contains k (JBool _) = Inl TypeError"
| "py_contains k (JInt _) = Inl TypeError"
| "py_contains k (JFloat _) = Inl TypeError"

section \<open>Lines of a text\<close>

definition LF :: char where "LF = CHR 0x0A"
definition CR :: char where "CR = CHR 0x0D"

text \<open>
  The line boundaries of \<^verbatim>\<open>str.splitlines\<close> among the code points below U+0100: line feed,
  vertical tab, form feed, carriage return, file, group and record separator, next line.
  \<^verbatim>\<open>str.splitlines\<close> also cuts at the line separator U+2028 and the paragraph separator
  U+2029; the strings of this model cannot hold them, so \<open>splitlines\<close> below is
  \<^verbatim>\<open>content.splitlines()\<close> on the texts whose code points are all below U+0100, and says
  nothing on the others.
\<close>

definition is_linebreak :: "char \<Rightarrow> bool" where
  "is_linebreak c \<longleftrightarrow>
     c = LF \<or> c = CHR 0x0B \<or> c = CHR 0x0C \<or> c = CR \<or>
     c = CHR 0x1C \<or> c = CHR 0x1D \<or> c = CHR 0x1E \<or> c = CHR 0x85"

text \<open>
  \<^verbatim>\<open>content.splitlines()\<close>: the text is cut at every line boundary, a carriage return followed
  by a line feed counting once; the boundaries are dropped and a text that ends with one has
  no empty last line. \<open>cur\<close> is the line being read, \<open>after_cr\<close> says that the last
  character was a carriage return.
\<close>

fun splitlines_from :: "string \<Rightarrow> bool \<Rightarrow> string \<Rightarrow> string list" where
  "splitlines_from cur after_cr [] = (if cur = [] then [] else [cur])"
| "splitlines_from cur after_cr (c # cs) =
     (if after_cr \<and> c = LF then splitlines_from cur False cs
      else if is_linebreak c then cur # splitlines_from [] (c = CR) cs
      else splitlines_from (cur @ [c]) False cs)"

definition splitlines :: "string \<Rightarrow> string list" where
  "splitlines content = splitlines_from [] False content"

text \<open>
  \<^verbatim>\<open>for line in file\<close> on a file opened by \<^verbatim>\<open>open(file_path)\<close>: text mode with universal
  newlines. A line ends at a line feed, a carriage return or the pair of them, each read as
  one line feed, and the line keeps that line feed; the last line has none when the file
  does not end with a newline.
\<close>

fun readlines_from :: "string \<Rightarrow> bool \<Rightarrow> string \<Rightarrow> string list" where
  "readlines_from cur after_cr [] = (if cur = [] then [] else [cur])"
| "readlines_from cur after_cr (c # cs) =
     (if after_cr \<and> c = LF then readlines_from cur False cs
      else if c = LF \<or> c = CR then (cur @ [LF]) # readlines_from [] (c = CR) cs
      else readlines_from (cur @ [c]) False cs)"

definition file_lines :: "string \<Rightarrow> string list" where
  "file_lines content = readlines_from [] False content"

section \<open>The batch result parser\<close>

text \<open>
  Two collaborators of the parser are arguments of the model. \<open>loads\<close> is \<^verbatim>\<open>json.loads\<close> on
  a string, \<open>None\<close> when it raises. \<open>response_model\<close> is the caller's pydantic class called
  on the keyword arguments of a dictionary, \<open>None\<close> when it raises.
\<close>

text \<open>\<^verbatim>\<open>json.loads(v)\<close> on a value: only a string is decoded.\<close>

fun json_loads_value :: "(string \<Rightarrow> json option) \<Rightarrow> json \<Rightarrow> py_error + json" where
  "json_loads_value loads (JStr s) = (case loads s of None \<Rightarrow> Inl JSONDecodeError | Some v \<Rightarrow> Inr v)"
| "json_loads_value loads _ = Inl TypeError"

text \<open>\<^verbatim>\<open>response_model(**v)\<close>: only a mapping can be unpacked into keyword arguments.\<close>

fun call_response_model :: "(dict \<Rightarrow> 'm option) \<Rightarrow> json \<Rightarrow> py_error + 'm" where
  "call_response_model response_model (JObj kvs) =
     (case response_model kvs of None \<Rightarrow> Inl ValidationError | Some m \<Rightarrow> Inr m)"
| "call_response_model response_model _ = Inl TypeError"

text \<open>\<^verbatim>\<open>response_model(**json.loads(<path>))\<close>, the argument evaluated first.\<close>

definition build_response ::
  "(dict \<Rightarrow> 'm option) \<Rightarrow> (string \<Rightarrow> json option) \<Rightarrow> py_error + json \<Rightarrow> py_error + 'm" where
  "build_response response_model loads arg =
     (case arg of
        Inl e \<Rightarrow> Inl e
      | Inr s \<Rightarrow>
          (case json_loads_value loads s of
             Inl e \<Rightarrow> Inl e
           | Inr v \<Rightarrow> call_response_model response_model v))"

text \<open>
  The body of the \<^verbatim>\<open>try\<close> in \<^verbatim>\<open>parse_from_file\<close> (lines 74 to 96): the value appended to
  \<^verbatim>\<open>res\<close>, or the exception raised on the way.
\<close>

definition parse_from_file_record ::
  "(dict \<Rightarrow> 'm option) \<Rightarrow> (string \<Rightarrow> json option) \<Rightarrow> json \<Rightarrow> py_error + 'm" where
  "parse_from_file_record response_model loads data =
     (case py_path data [Key ''response'', Key ''body'', Key ''choices'', Index 0, Key ''message''] of
        Inl e \<Rightarrow> Inl e
      | Inr message \<Rightarrow>
          (case py_contains ''tool_calls'' message of
             Inl e \<Rightarrow> Inl e
           | Inr True \<Rightarrow>
               build_response response_model loads
                 (py_path data [Key ''response'', Key ''body'', Key ''choices'', Index 0, Key ''message'',
                    Key ''tool_calls'', Index 0, Key ''function'', Key ''arguments''])
           | Inr False \<Rightarrow>
               build_response response_model loads
                 (py_path data [Key ''result'', Key ''message'', Key ''content'', Index 0, Key ''text''])))"

text \<open>
  The loop of \<^verbatim>\<open>parse_from_file\<close> over the lines still to read, with the two lists built so
  far. \<^verbatim>\<open>json.loads(line)\<close> stands before the \<^verbatim>\<open>try\<close>: its failure leaves the function. Any
  exception of the body is caught by \<^verbatim>\<open>except Exception\<close>, which appends \<open>data\<close>.
\<close>

fun parse_from_file_loop ::
  "(dict \<Rightarrow> 'm option) \<Rightarrow> (string \<Rightarrow> json option) \<Rightarrow> string list \<Rightarrow> 'm list \<Rightarrow> json list
     \<Rightarrow> py_error + ('m list \<times> json list)" where
  "parse_from_file_loop response_model loads [] res error_objs = Inr (res, error_objs)"
| "parse_from_file_loop response_model loads (line # lines) res error_objs =
     (case loads line of
        None \<Rightarrow> Inl JSONDecodeError
      | Some data \<Rightarrow>
          (case parse_from_file_record response_model loads data of
             Inr m \<Rightarrow> parse_from_file_loop response_model loads lines (res @ [m]) error_objs
           | Inl e \<Rightarrow> parse_from_file_loop response_model loads lines res (error_objs @ [data])))"

text \<open>
  \<^verbatim>\<open>parse_from_file\<close>. The file system is a map from paths to the text of the file; a path
  with no file makes \<^verbatim>\<open>open\<close> raise.
\<close>

definition parse_from_file ::
  "(string \<rightharpoonup> string) \<Rightarrow> (string \<Rightarrow> json option) \<Rightarrow> string \<Rightarrow> (dict \<Rightarrow> 'm option)
     \<Rightarrow> py_error + ('m list \<times> json list)" where
  "parse_from_file fs loads file_path response_model =
     (case fs file_path of
        None \<Rightarrow> Inl FileNotFoundError
      | Some content \<Rightarrow> parse_from_file_loop response_model loads (file_lines content) [] [])"

text \<open>The body of the \<^verbatim>\<open>try\<close> in \<^verbatim>\<open>parse_from_string\<close> (lines 112 to 131).\<close>

definition parse_from_string_record ::
  "(dict \<Rightarrow> 'm option) \<Rightarrow> (string \<Rightarrow> json option) \<Rightarrow> json \<Rightarrow> py_error + 'm" where
  "parse_from_string_record response_model loads data =
     (case py_path data [Key ''response'', Key ''body'', Key ''choices'', Index 0, Key ''message''] of
        Inl e \<Rightarrow> Inl e
      | Inr message \<Rightarrow>
          (case py_contains ''tool_calls'' message of
             Inl e \<Rightarrow> Inl e
           | Inr True \<Rightarrow>
               build_response response_model loads
                 (py_path data [Key ''response'', Key ''body'', Key ''choices'', Index 0, Key ''message'',
                    Key ''tool_calls'', Index 0, Key ''function'', Key ''arguments''])
           | Inr False \<Rightarrow>
               build_response response_model loads
                 (py_path data [Key ''result'', Key ''message'', Key ''content'', Index 0, Key ''text''])))"

fun parse_from_string_loop ::
  "(dict \<Rightarrow> 'm option) \<Rightarrow> (string \<Rightarrow> json option) \<Rightarrow> string list \<Rightarrow> 'm list \<Rightarrow> json list
     \<Rightarrow> py_error + ('m list \<times> json list)" where
  "parse_from_string_loop response_model loads [] res error_objs = Inr (res, error_objs)"
| "parse_from_string_loop response_model loads (line # lines) res error_objs =
     (case loads line of
        None \<Rightarrow> Inl JSONDecodeError
      | Some data \<Rightarrow>
          (case parse_from_string_record response_model loads data of
             Inr m \<Rightarrow> parse_from_string_loop response_model loads lines (res @ [m]) error_objs
           | Inl e \<Rightarrow> parse_from_string_loop response_model loads lines res (error_objs @ [data])))"

definition parse_from_string ::
  "(string \<Rightarrow> json option) \<Rightarrow> string \<Rightarrow> (dict \<Rightarrow> 'm option) \<Rightarrow> py_error + ('m list \<times> json list)" where
  "parse_from_string loads content response_model =
     parse_from_string_loop response_model loads (splitlines content) [] []"

section \<open>A decoder and an encoder for JSON text\<close>

text \<open>
  \<^verbatim>\<open>json.loads\<close> belongs to Python's library. The theorems below hold for every decoder; this one
  gives them a concrete instance. It follows the library's grammar: white space is space,
  tab, line feed and carriage return; a string may hold any character from U+0020 on and
  the escapes of JSON; a number with neither fraction nor exponent is an integer; the names
  \<^verbatim>\<open>NaN\<close>, \<^verbatim>\<open>Infinity\<close> and \<^verbatim>\<open>-Infinity\<close> are floats; the last value of a repeated key wins, at the
  place of the first. An escape \<^verbatim>\<open>\uXXXX\<close> above U+00FF is outside the strings of this model and
  is refused.
\<close>

definition is_ws :: "char \<Rightarrow> bool" where
  "is_ws c \<longleftrightarrow> c = CHR 0x20 \<or> c = CHR 0x09 \<or> c = LF \<or> c = CR"

definition is_digit :: "char \<Rightarrow> bool" where
  "is_digit c \<longleftrightarrow> c \<in> set ''0123456789''"

definition is_atom_char :: "char \<Rightarrow> bool" where
  "is_atom_char c \<longleftrightarrow>
     c \<in> set ''+-.0123456789ABCDEFGHIJKLMNOPQRSTUVWXYZabcdefghijklmnopqrstuvwxyz''"

fun index_of :: "'a \<Rightarrow> 'a list \<Rightarrow> nat option" where
  "index_of x [] = None"
| "index_of x (y # ys) = (if x = y then Some 0 else map_option Suc (index_of x ys))"

definition digit_val :: "char \<Rightarrow> nat" where
  "digit_val c = (case index_of c ''0123456789'' of None \<Rightarrow> 0 | Some n \<Rightarrow> n)"

definition hex_val :: "char \<Rightarrow> nat option" where
  "hex_val c =
     (case index_of c ''0123456789abcdef'' of
        Some n \<Rightarrow> Some n
      | None \<Rightarrow> map_option (\<lambda>n. n + 10) (index_of c ''ABCDEF''))"

definition nat_of_digits :: "string \<Rightarrow> nat" where
  "nat_of_digits ds = foldl (\<lambda>n c. 10 * n + digit_val c) 0 ds"

definition hex4 :: "string \<Rightarrow> nat option" where
  "hex4 hs =
     (if length hs = 4 \<and> list_all (\<lambda>c. hex_val c \<noteq> None) hs
      then Some (foldl (\<lambda>n c. 16 * n + (case hex_val c of None \<Rightarrow> 0 | Some d \<Rightarrow> d)) 0 hs)
      else None)"

text \<open>
  A number of JSON: \<^verbatim>\<open>-?(0|[1-9][0-9]*)(\.[0-9]+)?([eE][-+]?[0-9]+)?\<close>, matched against the
  whole of \<open>s\<close>.
\<close>

definition parse_number :: "string \<Rightarrow> json option" where
  "parse_number s =
     (let neg = (s \<noteq> [] \<and> hd s = CHR ''-'');
          s1 = (if neg then tl s else s);
          ip = takeWhile is_digit s1;
          s2 = dropWhile is_digit s1;
          has_frac = (s2 \<noteq> [] \<and> hd s2 = CHR ''.'');
          fp = (if has_frac then takeWhile is_digit (tl s2) else []);
          s3 = (if has_frac then dropWhile is_digit (tl s2) else s2);
          has_exp = (s3 \<noteq> [] \<and> (hd s3 = CHR ''e'' \<or> hd s3 = CHR ''E''));
          s4 = (if has_exp then tl s3 else s3);
          eneg = (has_exp \<and> s4 \<noteq> [] \<and> hd s4 = CHR ''-'');
          s5 = (if has_exp \<and> s4 \<noteq> [] \<and> (hd s4 = CHR ''-'' \<or> hd s4 = CHR ''+'') then tl s4 else s4);
          ep = (if has_exp then takeWhile is_digit s5 else []);
          s6 = (if has_exp then dropWhile is_digit s5 else s5);
          sgn = (\<lambda>b n. if b then - int n else int n)
      in if ip = [] \<or> (1 < length ip \<and> hd ip = CHR ''0'') \<or> (has_frac \<and> fp = [])
            \<or> (has_exp \<and> ep = []) \<or> s6 \<noteq> []
         then None
         else if \<not> has_frac \<and> \<not> has_exp then Some (JInt (sgn neg (nat_of_digits ip)))
         else Some (JFloat (Decimal (sgn neg (nat_of_digits (ip @ fp)))
                             (sgn eneg (nat_of_digits ep) - int (length fp)))))"

text \<open>A value that is neither a string, a list nor an object: a name or a number.\<close>

definition atom_value :: "string \<Rightarrow> json option" where
  "atom_value a =
     (if a = ''null'' then Some JNull
      else if a = ''true'' then Some (JBool True)
      else if a = ''false'' then Some (JBool False)
      else if a = ''NaN'' then Some (JFloat NaN)
      else if a = ''Infinity'' then Some (JFloat PosInfinity)
      else if a = ''-Infinity'' then Some (JFloat NegInfinity)
      else parse_number a)"

datatype token = TLBrace | TRBrace | TLBrack | TRBrack | TComma | TColon | TStr string | TAtom json

datatype lex_mode = LTop | LAtom string | LStr string | LEsc string | LUni string string

definition escape_char :: "char \<Rightarrow> char option" where
  "escape_char c =
     (if c = CHR 0x22 then Some (CHR 0x22)
      else if c = CHR 0x5C then Some (CHR 0x5C)
      else if c = CHR ''/'' then Some (CHR ''/'')
      else if c = CHR ''b'' then Some (CHR 0x08)
      else if c = CHR ''f'' then Some (CHR 0x0C)
      else if c = CHR ''n'' then Some LF
      else if c = CHR ''r'' then Some CR
      else if c = CHR ''t'' then Some (CHR 0x09)
      else None)"

definition punct :: "char \<Rightarrow> token option" where
  "punct c =
     (if c = CHR ''{'' then Some TLBrace
      else if c = CHR ''}'' then Some TRBrace
      else if c = CHR ''['' then Some TLBrack
      else if c = CHR '']'' then Some TRBrack
      else if c = CHR '','' then Some TComma
      else if c = CHR '':'' then Some TColon
      else None)"

text \<open>
  The scanner, one character at a time. Outside a string it skips white space, emits the
  punctuation and gathers the longest run of letters, digits, signs and dots as one atom
  (in JSON text that Python accepts, a name or a number is never followed by such a
  character). Inside a string it gathers the characters up to the closing quote.
\<close>

function (sequential) lex :: "lex_mode \<Rightarrow> string \<Rightarrow> token list option" where
  "lex LTop [] = Some []"
| "lex (LAtom a) [] = map_option (\<lambda>v. [TAtom v]) (atom_value a)"
| "lex (LStr acc) [] = None"
| "lex (LEsc acc) [] = None"
| "lex (LUni acc hs) [] = None"
| "lex LTop (c # cs) =
     (if is_ws c then lex LTop cs
      else if c = CHR 0x22 then lex (LStr []) cs
      else if is_atom_char c then lex (LAtom [c]) cs
      else (case punct c of None \<Rightarrow> None | Some t \<Rightarrow> map_option (Cons t) (lex LTop cs)))"
| "lex (LAtom a) (c # cs) =
     (if is_atom_char c then lex (LAtom (a @ [c])) cs
      else (case atom_value a of
              None \<Rightarrow> None
            | Some v \<Rightarrow> map_option (Cons (TAtom v)) (lex LTop (c # cs))))"
| "lex (LStr acc) (c # cs) =
     (if c = CHR 0x22 then map_option (Cons (TStr acc)) (lex LTop cs)
      else if c = CHR 0x5C then lex (LEsc acc) cs
      else if of_char c < (32 :: nat) then None
      else lex (LStr (acc @ [c])) cs)"
| "lex (LEsc acc) (c # cs) =
     (if c = CHR ''u'' then lex (LUni acc []) cs
      else (case escape_char c of None \<Rightarrow> None | Some d \<Rightarrow> lex (LStr (acc @ [d])) cs))"
| "lex (LUni acc hs) (c # cs) =
     (if length hs < 3 then lex (LUni acc (hs @ [c])) cs
      else (case hex4 (hs @ [c]) of
              None \<Rightarrow> None
            | Some n \<Rightarrow> if n < 256 then lex (LStr (acc @ [char_of n])) cs else None))"
  by pat_completeness auto
termination
  by (relation "measure (\<lambda>(m, s). 2 * length s + (case m of LAtom _ \<Rightarrow> 1 | _ \<Rightarrow> 0))") auto

text \<open>
  The parser is a machine over the tokens with the stack of the lists and objects still
  open: \<open>InArr xs\<close> has read the items \<open>xs\<close>, \<open>InObj ms k\<close> has read the members \<open>ms\<close> and the
  key \<open>k\<close> of the value being read.
\<close>

datatype frame = InArr "json list" | InObj dict string

datatype pstate =
    PValue "frame list"
  | PValueOrEnd "frame list"
  | PKeyOrEnd "frame list"
  | PKey dict "frame list"
  | PColon dict string "frame list"
  | PDone json "frame list"

fun pvalue :: "frame list \<Rightarrow> token \<Rightarrow> pstate option" where
  "pvalue stk TLBrack = Some (PValueOrEnd stk)"
| "pvalue stk TLBrace = Some (PKeyOrEnd stk)"
| "pvalue stk (TStr s) = Some (PDone (JStr s) stk)"
| "pvalue stk (TAtom v) = Some (PDone v stk)"
| "pvalue stk _ = None"

fun pstep :: "pstate \<Rightarrow> token \<Rightarrow> pstate option" where
  "pstep (PValue stk) t = pvalue stk t"
| "pstep (PValueOrEnd stk) t =
     (if t = TRBrack then Some (PDone (JArr []) stk) else pvalue (InArr [] # stk) t)"
| "pstep (PKeyOrEnd stk) t =
     (case t of TRBrace \<Rightarrow> Some (PDone (JObj []) stk) | TStr k \<Rightarrow> Some (PColon [] k stk) | _ \<Rightarrow> None)"
| "pstep (PKey ms stk) t = (case t of TStr k \<Rightarrow> Some (PColon ms k stk) | _ \<Rightarrow> None)"
| "pstep (PColon ms k stk) t = (if t = TColon then Some (PValue (InObj ms k # stk)) else None)"
| "pstep (PDone v []) t = None"
| "pstep (PDone v (InArr xs # stk)) t =
     (case t of
        TComma \<Rightarrow> Some (PValue (InArr (xs @ [v]) # stk))
      | TRBrack \<Rightarrow> Some (PDone (JArr (xs @ [v])) stk)
      | _ \<Rightarrow> None)"
| "pstep (PDone v (InObj ms k # stk)) t =
     (case t of
        TComma \<Rightarrow> Some (PKey (AList.update k v ms) stk)
      | TRBrace \<Rightarrow> Some (PDone (JObj (AList.update k v ms)) stk)
      | _ \<Rightarrow> None)"

fun parse_tokens :: "pstate \<Rightarrow> token list \<Rightarrow> json option" where
  "parse_tokens (PDone v []) [] = Some v"
| "parse_tokens st [] = None"
| "parse_tokens st (t # ts) = (case pstep st t of None \<Rightarrow> None | Some st' \<Rightarrow> parse_tokens st' ts)"

definition json_loads :: "string \<Rightarrow> json option" where
  "json_loads s = (case lex LTop s of None \<Rightarrow> None | Some ts \<Rightarrow> parse_tokens (PValue []) ts)"

text \<open>
  The encoder prints a value the way \<^verbatim>\<open>model_dump_json\<close> does, with no white space between the
  tokens and every control character of a string escaped. A finite float is printed as its
  mantissa and its exponent.
\<close>

fun show_nat :: "nat \<Rightarrow> string" where
  "show_nat n =
     (if n < 10 then [''0123456789'' ! n]
      else show_nat (n div 10) @ [''0123456789'' ! (n mod 10)])"

declare show_nat.simps [simp del]

definition show_int :: "int \<Rightarrow> string" where
  "show_int i = (if i < 0 then CHR ''-'' # show_nat (nat (- i)) else show_nat (nat i))"

definition hex_digit :: "nat \<Rightarrow> char" where
  "hex_digit n = ''0123456789abcdef'' ! (n mod 16)"

definition escape_str_char :: "char \<Rightarrow> string" where
  "escape_str_char c =
     (if c = CHR 0x22 then [CHR 0x5C, CHR 0x22]
      else if c = CHR 0x5C then [CHR 0x5C, CHR 0x5C]
      else if c = CHR 0x08 then [CHR 0x5C, CHR ''b'']
      else if c = CHR 0x0C then [CHR 0x5C, CHR ''f'']
      else if c = LF then [CHR 0x5C, CHR ''n'']
      else if c = CR then [CHR 0x5C, CHR ''r'']
      else if c = CHR 0x09 then [CHR 0x5C, CHR ''t'']
      else if of_char c < (32 :: nat)
        then [CHR 0x5C, CHR ''u'', CHR ''0'', CHR ''0'', hex_digit (of_char c div 16), hex_digit (of_char c)]
      else [c])"

definition dumps_str :: "string \<Rightarrow> string" where
  "dumps_str s = [CHR 0x22] @ concat (map escape_str_char s) @ [CHR 0x22]"

fun dumps_float :: "pyfloat \<Rightarrow> string" where
  "dumps_float (Decimal m e) = show_int m @ ''e'' @ show_int e"
| "dumps_float NaN = ''NaN''"
| "dumps_float PosInfinity = ''Infinity''"
| "dumps_float NegInfinity = ''-Infinity''"

fun join :: "string \<Rightarrow> string list \<Rightarrow> string" where
  "join sep [] = []"
| "join sep [x] = x"
| "join sep (x # y # ys) = x @ sep @ join sep (y # ys)"

fun json_dumps :: "json \<Rightarrow> string" where
  "json_dumps JNull = ''null''"
| "json_dumps (JBool b) = (if b then ''true'' else ''false'')"
| "json_dumps (JInt i) = show_int i"
| "json_dumps (JFloat f) = dumps_float f"
| "json_dumps (JStr s) = dumps_str s"
| "json_dumps (JArr xs) = ''['' @ join '','' (map json_dumps xs) @ '']''"
| "json_dumps (JObj kvs) =
     ''{'' @ join '','' (map (\<lambda>kv. dumps_str (fst kv) @ '':'' @ json_dumps (snd kv)) kvs) @ ''}''"

section \<open>Tool schemas and the request body\<close>

text \<open>
  The classes \<^verbatim>\<open>Function\<close>, \<^verbatim>\<open>Tool\<close> and \<^verbatim>\<open>AnthropicTool\<close>. The type \<open>tool\<close> is
  \<^verbatim>\<open>Union[Tool, AnthropicTool]\<close>, its two constructors the two classes. A field of type
  \<^verbatim>\<open>Any\<close> holds any value.
\<close>

datatype Function = Function (fn_name: string) (fn_description: string) (fn_parameters: json)

datatype tool =
    is_Tool: Tool (tool_type: string) (tool_function: Function)
  | is_AnthropicTool: AnthropicTool (at_name: string) (at_description: string) (at_input_schema: json)

record RequestBody =
  model :: string
  messages :: "dict list"
  max_tokens :: "int option"
  temperature :: "pyfloat option"
  tools :: "tool list option"
  tool_choice :: "dict option"


text \<open>
  Validation by pydantic (version 2, as \<^verbatim>\<open>model_dump_json\<close> is) of the declared fields, on values
  that came from JSON: a \<^verbatim>\<open>str\<close> field takes a string only, a field with no default is
  required, a key that is no field is ignored. A failure is a \<^verbatim>\<open>ValidationError\<close>.
\<close>

text \<open>The field \<^verbatim>\<open>function: Function\<close> of \<^verbatim>\<open>Tool\<close>, given a dictionary.\<close>

fun Function_validate :: "json \<Rightarrow> py_error + Function" where
  "Function_validate (JObj kvs) =
     (case (map_of kvs ''name'', map_of kvs ''description'', map_of kvs ''parameters'') of
        (Some (JStr n), Some (JStr d), Some p) \<Rightarrow> Inr (Function n d p)
      | _ \<Rightarrow> Inl ValidationError)"
| "Function_validate _ = Inl ValidationError"

text \<open>\<^verbatim>\<open>Tool(**tool_data)\<close>: the unpacking needs a mapping; then the fields are validated.\<close>

fun Tool_init :: "json \<Rightarrow> py_error + tool" where
  "Tool_init (JObj kvs) =
     (case (map_of kvs ''type'', map_of kvs ''function'') of
        (Some (JStr t), Some f) \<Rightarrow>
          (case Function_validate f of Inl e \<Rightarrow> Inl e | Inr fn \<Rightarrow> Inr (Tool t fn))
      | _ \<Rightarrow> Inl ValidationError)"
| "Tool_init _ = Inl TypeError"

text \<open>\<^verbatim>\<open>AnthropicTool(name=n, description=d, input_schema=s)\<close> on three values.\<close>

fun AnthropicTool_init :: "json \<Rightarrow> json \<Rightarrow> json \<Rightarrow> py_error + tool" where
  "AnthropicTool_init (JStr n) (JStr d) s = Inr (AnthropicTool n d s)"
| "AnthropicTool_init _ _ _ = Inl ValidationError"

text \<open>
  The iteration \<^verbatim>\<open>for x in v\<close>: the items of a list, the keys of a dictionary, the characters
  of a string; any other value is not iterable.
\<close>

fun py_iter :: "json \<Rightarrow> py_error + json list" where
  "py_iter (JArr xs) = Inr xs"
| "py_iter (JObj kvs) = Inr (map (\<lambda>kv. JStr (fst kv)) kvs)"
| "py_iter (JStr s) = Inr (map (\<lambda>c. JStr [c]) s)"
| "py_iter _ = Inl TypeError"

text \<open>
  The body of the loop of \<^verbatim>\<open>map_tools\<close> (lines 43 to 52) on one \<^verbatim>\<open>tool_data\<close>: the tool
  appended to \<^verbatim>\<open>mapped_tools\<close>, or the exception. The three arguments of \<^verbatim>\<open>AnthropicTool\<close>
  are read in the order written.
\<close>

definition map_tool :: "json \<Rightarrow> py_error + tool" where
  "map_tool tool_data =
     (case py_contains ''function'' tool_data of
        Inl e \<Rightarrow> Inl e
      | Inr True \<Rightarrow> Tool_init tool_data
      | Inr False \<Rightarrow>
          (case py_contains ''input_schema'' tool_data of
             Inl e \<Rightarrow> Inl e
           | Inr True \<Rightarrow>
               (case py_getitem tool_data (Key ''name'') of
                  Inl e \<Rightarrow> Inl e
                | Inr n \<Rightarrow>
                    (case py_getitem tool_data (Key ''description'') of
                       Inl e \<Rightarrow> Inl e
                     | Inr d \<Rightarrow>
                         (case py_getitem tool_data (Key ''input_schema'') of
                            Inl e \<Rightarrow> Inl e
                          | Inr s \<Rightarrow> AnthropicTool_init n d s)))
           | Inr False \<Rightarrow> Inl ValueError))"

fun map_tools_loop :: "json list \<Rightarrow> tool list \<Rightarrow> py_error + tool list" where
  "map_tools_loop [] mapped_tools = Inr mapped_tools"
| "map_tools_loop (tool_data # rest) mapped_tools =
     (case map_tool tool_data of
        Inl e \<Rightarrow> Inl e
      | Inr t \<Rightarrow> map_tools_loop rest (mapped_tools @ [t]))"

text \<open>
  The validator \<^verbatim>\<open>map_tools\<close>, run on the raw keyword arguments before the fields are
  validated. It returns \<^verbatim>\<open>values\<close> with \<^verbatim>\<open>values["tools"]\<close> set to the list built; the model
  returns that list, the other keys being unchanged.
\<close>

definition map_tools :: "dict \<Rightarrow> py_error + tool list" where
  "map_tools values =
     (let tools_data = (case map_of values ''tools'' of None \<Rightarrow> JArr [] | Some v \<Rightarrow> v)
      in case py_iter tools_data of
           Inl e \<Rightarrow> Inl e
         | Inr items \<Rightarrow> map_tools_loop items [])"

text \<open>
  The fields of \<^verbatim>\<open>RequestBody\<close> other than \<^verbatim>\<open>tools\<close>. The conversions pydantic makes of a value
  of another type (a numeric string for an integer, say) are not modelled: such a value is
  refused.
\<close>

fun model_field :: "json option \<Rightarrow> py_error + string" where
  "model_field (Some (JStr s)) = Inr s"
| "model_field _ = Inl ValidationError"

fun message_field :: "json \<Rightarrow> dict option" where
  "message_field (JObj kvs) = Some kvs"
| "message_field _ = None"

fun messages_field :: "json option \<Rightarrow> py_error + dict list" where
  "messages_field (Some (JArr xs)) =
     (if list_all (\<lambda>x. message_field x \<noteq> None) xs
      then Inr (map (\<lambda>x. case message_field x of Some kvs \<Rightarrow> kvs | None \<Rightarrow> []) xs)
      else Inl ValidationError)"
| "messages_field _ = Inl ValidationError"

fun max_tokens_field :: "json option \<Rightarrow> py_error + int option" where
  "max_tokens_field None = Inr (Some 1000)"
| "max_tokens_field (Some JNull) = Inr None"
| "max_tokens_field (Some (JInt n)) = Inr (Some n)"
| "max_tokens_field _ = Inl ValidationError"

fun temperature_field :: "json option \<Rightarrow> py_error + pyfloat option" where
  "temperature_field None = Inr (Some (Decimal 10 (- 1)))"
| "temperature_field (Some JNull) = Inr None"
| "temperature_field (Some (JFloat f)) = Inr (Some f)"
| "temperature_field (Some (JInt n)) = Inr (Some (Decimal n 0))"
| "temperature_field _ = Inl ValidationError"

fun tool_choice_field :: "json option \<Rightarrow> py_error + dict option" where
  "tool_choice_field None = Inr None"
| "tool_choice_field (Some JNull) = Inr None"
| "tool_choice_field (Some (JObj kvs)) = Inr (Some kvs)"
| "tool_choice_field _ = Inl ValidationError"

text \<open>
  \<^verbatim>\<open>RequestBody(**values)\<close>: first \<^verbatim>\<open>map_tools\<close>, whose \<^verbatim>\<open>ValueError\<close> pydantic reports as a
  \<^verbatim>\<open>ValidationError\<close> and whose other exceptions pass through; then the fields, the field
  \<^verbatim>\<open>tools\<close> holding the list that \<^verbatim>\<open>map_tools\<close> built.
\<close>

definition RequestBody_init :: "dict \<Rightarrow> py_error + RequestBody" where
  "RequestBody_init values =
     (case map_tools values of
        Inl ValueError \<Rightarrow> Inl ValidationError
      | Inl e \<Rightarrow> Inl e
      | Inr mapped_tools \<Rightarrow>
          (case (model_field (map_of values ''model''),
                 messages_field (map_of values ''messages''),
                 max_tokens_field (map_of values ''max_tokens''),
                 temperature_field (map_of values ''temperature''),
                 tool_choice_field (map_of values ''tool_choice'')) of
             (Inr m, Inr ms, Inr mt, Inr t, Inr tc) \<Rightarrow>
               Inr \<lparr>model = m, messages = ms, max_tokens = mt, temperature = t,
                    tools = Some mapped_tools, tool_choice = tc\<rparr>
           | _ \<Rightarrow> Inl ValidationError))"

text \<open>What \<^verbatim>\<open>model_dump_json\<close> prints, as a value: the fields in the order declared.\<close>

fun opt_dump :: "('a \<Rightarrow> json) \<Rightarrow> 'a option \<Rightarrow> json" where
  "opt_dump f None = JNull"
| "opt_dump f (Some x) = f x"

fun tool_dump :: "tool \<Rightarrow> json" where
  "tool_dump (Tool t (Function n d p)) =
     JObj [(''type'', JStr t),
           (''function'', JObj [(''name'', JStr n), (''description'', JStr d), (''parameters'', p)])]"
| "tool_dump (AnthropicTool n d s) =
     JObj [(''name'', JStr n), (''description'', JStr d), (''input_schema'', s)]"

definition RequestBody_dump :: "RequestBody \<Rightarrow> json" where
  "RequestBody_dump rb =
     JObj [(''model'', JStr (model rb)),
           (''messages'', JArr (map JObj (messages rb))),
           (''max_tokens'', opt_dump JInt (max_tokens rb)),
           (''temperature'', opt_dump JFloat (temperature rb)),
           (''tools'', opt_dump (\<lambda>ts. JArr (map tool_dump ts)) (tools rb)),
           (''tool_choice'', opt_dump JObj (tool_choice rb))]"


text \<open>
  The two halves of a round trip of a request body through JSON text:
  \<^verbatim>\<open>body.model_dump_json()\<close> and \<^verbatim>\<open>RequestBody(**json.loads(text))\<close>.
\<close>

definition RequestBody_model_dump_json :: "(json \<Rightarrow> string) \<Rightarrow> RequestBody \<Rightarrow> string" where
  "RequestBody_model_dump_json dumps rb = dumps (RequestBody_dump rb)"

definition RequestBody_from_json :: "(string \<Rightarrow> json option) \<Rightarrow> string \<Rightarrow> py_error + RequestBody" where
  "RequestBody_from_json loads text =
     (case loads text of
        None \<Rightarrow> Inl JSONDecodeError
      | Some (JObj kvs) \<Rightarrow> RequestBody_init kvs
      | Some _ \<Rightarrow> Inl TypeError)"

section \<open>The batch writer\<close>









section \<open>Examples\<close>

text \<open>
  A response model for the examples:
  \<^verbatim>\<open>class User(BaseModel): name: str; age: int\<close>.
\<close>

datatype User = User string int

definition User_model :: "dict \<Rightarrow> User option" where
  "User_model kvs =
     (case (map_of kvs ''name'', map_of kvs ''age'') of
        (Some (JStr n), Some (JInt a)) \<Rightarrow> Some (User n a)
      | _ \<Rightarrow> None)"

text \<open>
  Modelled from the spec: \<^verbatim>\<open>handle_response_model\<close> of \<^verbatim>\<open>instructor.process_response\<close> is not
  among the sources. The spec treats it as an opaque function from the target schema and
  the provider mode to the tool payload, the tool choice and other keyword arguments, and
  gives the two wire shapes of a tool. This instance returns one tool of the mode's shape
  for \<^verbatim>\<open>User\<close>, and in the Anthropic mode the key \<^verbatim>\<open>messages\<close> that the writer removes.
\<close>

definition user_schema :: json where
  "user_schema =
     JObj [(''type'', JStr ''object''),
           (''properties'', JObj [(''name'', JObj [(''type'', JStr ''string'')]),
                                  (''age'', JObj [(''type'', JStr ''integer'')])]),
           (''required'', JArr [JStr ''name'', JStr ''age''])]"



text \<open>
  Two records of a batch output, one of each shape the parser names, and some batch
  outputs made of them. Both records carry a payload that \<^const>\<open>User_model\<close> accepts.
\<close>

definition openai_record :: json where
  \<open>openai_record =
     JObj [(''response'', JObj [(''body'', JObj [(''choices'',
       JArr [JObj [(''message'', JObj [(''tool_calls'',
         JArr [JObj [(''function'', JObj [(''arguments'',
           JStr ''{"name": "Bob", "age": 41}'')])]])])]])])])]\<close>

definition anthropic_record :: json where
  \<open>anthropic_record =
     JObj [(''result'', JObj [(''message'', JObj [(''content'',
       JArr [JObj [(''text'', JStr ''{"name": "Ann", "age": 30}'')]])])])]\<close>

definition anthropic_output :: string where
  "anthropic_output = json_dumps anthropic_record @ [LF]"

definition mixed_output :: string where
  "mixed_output =
     json_dumps openai_record @ [LF] @ json_dumps anthropic_record @ [LF] @ ''{}'' @ [LF] @
     json_dumps openai_record @ [LF]"

definition broken_output :: string where
  "broken_output =
     json_dumps openai_record @ [LF] @ ''{not json'' @ [LF] @ json_dumps openai_record @ [LF]"

text \<open>A batch output whose two records are separated by a form feed.\<close>

definition form_feed_output :: string where
  "form_feed_output = ''{}'' @ [CHR 0x0C] @ ''{}''"

text \<open>
  A batch output of one generic record that is valid JSON on one line and holds the
  next-line character U+0085 inside a string.
\<close>

definition next_line_record :: json where
  \<open>next_line_record =
     JObj [(''response'', JObj [(''body'', JObj [(''choices'',
       JArr [JObj [(''message'', JObj [(''tool_calls'',
         JArr [JObj [(''function'', JObj [(''arguments'',
           JStr ''{"name": "Bob", "age": 41}'')])]])])]])])]),
           (''note'', JStr [CHR ''a'', CHR 0x85, CHR ''b''])]\<close>

definition next_line_output :: string where
  "next_line_output = json_dumps next_line_record @ [LF]"

text \<open>Keyword arguments of a request body: with no tools, and with two generic tools.\<close>

definition no_tools_values :: dict where
  "no_tools_values =
     [(''model'', JStr ''gpt-4o''),
      (''messages'', JArr [JObj [(''role'', JStr ''user''), (''content'', JStr ''hi'')]])]"

definition generic_tool_objects :: "json list" where
  "generic_tool_objects =
     [JObj [(''type'', JStr ''function''),
            (''function'', JObj [(''name'', JStr ''User''), (''description'', JStr ''A user''),
                                 (''parameters'', user_schema)])],
      JObj [(''type'', JStr ''function''),
            (''function'', JObj [(''name'', JStr ''Ping''), (''description'', JStr ''No arguments''),
                                 (''parameters'', JObj [])])]]"

definition two_tools_values :: dict where
  "two_tools_values = no_tools_values @ [(''tools'', JArr generic_tool_objects)]"

definition no_tools_body :: RequestBody where
  "no_tools_body =
     \<lparr>model = ''gpt-4o'',
      messages = [[(''role'', JStr ''user''), (''content'', JStr ''hi'')]],
      max_tokens = Some 1000, temperature = Some (Decimal 10 (- 1)),
      tools = Some [], tool_choice = None\<rparr>"

definition two_tools_body :: RequestBody where
  "two_tools_body =
     \<lparr>model = ''gpt-4o'',
      messages = [[(''role'', JStr ''user''), (''content'', JStr ''hi'')]],
      max_tokens = Some 1000, temperature = Some (Decimal 10 (- 1)),
      tools = Some [Tool ''function'' (Function ''User'' ''A user'' user_schema),
                    Tool ''function'' (Function ''Ping'' ''No arguments'' (JObj []))],
      tool_choice = None\<rparr>"

text \<open>Tool objects: one of the Anthropic shape, one with a function but no type, one of no shape.\<close>

definition anthropic_tool_object :: json where
  "anthropic_tool_object =
     JObj [(''name'', JStr ''User''), (''description'', JStr ''A user''), (''input_schema'', user_schema)]"

definition untyped_function_object :: json where
  "untyped_function_object =
     JObj [(''function'', JObj [(''name'', JStr ''User''), (''description'', JStr ''A user''),
                                (''parameters'', user_schema)])]"

definition shapeless_object :: json where
  "shapeless_object = JObj [(''title'', JStr ''User'')]"






section \<open>Lemmas on the parser\<close>


lemma record_bodies_agree:
  "parse_from_file_record response_model loads data = parse_from_string_record response_model loads data"
  by (simp add: parse_from_file_record_def parse_from_string_record_def)

lemma file_loop_is_string_loop:
  "parse_from_file_loop response_model loads ls res errs =
   parse_from_string_loop response_model loads ls res errs"
  by (induction ls arbitrary: res errs) (auto simp: record_bodies_agree split: option.splits sum.splits)

lemma no_response_key:
  "map_of kvs ''response'' = None \<Longrightarrow> parse_from_string_record response_model loads (JObj kvs) = Inl KeyError"
  by (simp add: parse_from_string_record_def)

lemma string_loop_abort:
  "\<exists>l \<in> set ls. loads l = None \<Longrightarrow>
   parse_from_string_loop response_model loads ls res errs = Inl JSONDecodeError"
  by (induction ls arbitrary: res errs) (auto split: option.splits sum.splits)

lemma string_loop_decoded:
  "map loads ls = map Some ds \<Longrightarrow>
   parse_from_string_loop response_model loads ls res errs =
     Inr (res @ List.map_filter
                  (\<lambda>d. case parse_from_string_record response_model loads d of
                          Inr m \<Rightarrow> Some m | Inl e \<Rightarrow> None) ds,
          errs @ filter (\<lambda>d. isl (parse_from_string_record response_model loads d)) ds)"
proof (induction ls arbitrary: ds res errs)
  case Nil
  then show ?case by (simp add: List.map_filter_simps)
next
  case (Cons l ls)
  then obtain d ds' where ds: "ds = d # ds'" and d: "loads l = Some d"
    and rest: "map loads ls = map Some ds'"
    by (cases ds) auto
  show ?case
    using Cons.IH[OF rest] d
    by (cases "parse_from_string_record response_model loads d")
       (simp_all add: ds List.map_filter_simps)
qed

lemma string_loop_length:
  "parse_from_string_loop response_model loads ls res errs = Inr (res', errs') \<Longrightarrow>
   length res' + length errs' = length res + length errs + length ls"
  by (induction ls arbitrary: res errs) (auto split: option.splits sum.splits)

section \<open>The claims on the parser\<close>

text \<open>
  C1. The claim: a decoded record that is not of the generic shape is treated as an
  Anthropic record, and a well-formed Anthropic record ends in the parsed list. The code
  tests \<^verbatim>\<open>"tool_calls" in data["response"]["body"]["choices"][0]["message"]\<close> inside the
  \<^verbatim>\<open>try\<close>; on an Anthropic record the first subscript raises \<^verbatim>\<open>KeyError\<close>, the branch marked
  \<^verbatim>\<open># Anthropic format\<close> is never reached and the record is appended to the error list. The
  theorem evaluates both entry points on a batch output of the one record
  \<^const>\<open>anthropic_record\<close>, whose payload the target schema accepts.
\<close>

theorem anthropic_record_lands_in_errors:
  "parse_from_string json_loads anthropic_output User_model = Inr ([], [anthropic_record]) \<and>
   parse_from_file [''out.jsonl'' \<mapsto> anthropic_output] json_loads ''out.jsonl'' User_model =
     Inr ([], [anthropic_record])"
  by code_simp

text \<open>
  C2. When a line of the input is not valid JSON, the call raises the decoder's error and
  returns no pair, whatever the other lines are; this holds for \<^verbatim>\<open>parse_from_string\<close> on the
  lines of \<^verbatim>\<open>splitlines\<close> and for \<^verbatim>\<open>parse_from_file\<close> on the lines read from the file.
\<close>

theorem invalid_line_aborts_parse:
  "((\<exists>l \<in> set (splitlines content). loads l = None) \<longrightarrow>
      parse_from_string loads content response_model = Inl JSONDecodeError) \<and>
   (fs file_path = Some content \<and> (\<exists>l \<in> set (file_lines content). loads l = None) \<longrightarrow>
      parse_from_file fs loads file_path response_model = Inl JSONDecodeError)"
  by (simp add: parse_from_string_def parse_from_file_def file_loop_is_string_loop string_loop_abort)

theorem invalid_line_aborts_parse_witness:
  "(\<exists>l \<in> set (splitlines broken_output). json_loads l = None) \<and>
   (\<exists>l \<in> set (file_lines broken_output). json_loads l = None) \<and>
   parse_from_string json_loads broken_output User_model = Inl JSONDecodeError \<and>
   parse_from_file [''out.jsonl'' \<mapsto> broken_output] json_loads ''out.jsonl'' User_model =
     Inl JSONDecodeError"
proof -
  have s: "\<exists>l \<in> set (splitlines broken_output). json_loads l = None"
    by code_simp
  have f: "\<exists>l \<in> set (file_lines broken_output). json_loads l = None"
    by code_simp
  have p: "[''out.jsonl'' \<mapsto> broken_output] ''out.jsonl'' = Some broken_output"
    by simp
  show ?thesis
    using s f p
      invalid_line_aborts_parse
        [of broken_output json_loads User_model "[''out.jsonl'' \<mapsto> broken_output]" "''out.jsonl''"]
    by blast
qed

text \<open>
  C3. When every line decodes, to the records \<open>ds\<close> in this order, the call returns two
  lists: the first holds the instances built from the records whose extraction, decoding
  and construction raised nothing, the second holds the other records themselves, as
  decoded; each list is in the order of the input. So an exception of that sequence is
  caught, the raw record is what goes to the error list, and the loop goes on.
\<close>

theorem record_errors_are_isolated:
  "(map loads (splitlines content) = map Some ds \<longrightarrow>
      parse_from_string loads content response_model =
        Inr (List.map_filter
               (\<lambda>d. case parse_from_string_record response_model loads d of
                       Inr m \<Rightarrow> Some m | Inl e \<Rightarrow> None) ds,
             filter (\<lambda>d. isl (parse_from_string_record response_model loads d)) ds)) \<and>
   (fs file_path = Some content \<and> map loads (file_lines content) = map Some ds \<longrightarrow>
      parse_from_file fs loads file_path response_model =
        Inr (List.map_filter
               (\<lambda>d. case parse_from_file_record response_model loads d of
                       Inr m \<Rightarrow> Some m | Inl e \<Rightarrow> None) ds,
             filter (\<lambda>d. isl (parse_from_file_record response_model loads d)) ds))"
  using string_loop_decoded[of loads _ ds response_model "[]" "[]"]
  by (simp add: parse_from_string_def parse_from_file_def file_loop_is_string_loop record_bodies_agree)

theorem record_errors_are_isolated_witness:
  "map json_loads (splitlines mixed_output) =
     map Some [openai_record, anthropic_record, JObj [], openai_record] \<and>
   map json_loads (file_lines mixed_output) =
     map Some [openai_record, anthropic_record, JObj [], openai_record] \<and>
   parse_from_string json_loads mixed_output User_model =
     Inr ([User ''Bob'' 41, User ''Bob'' 41], [anthropic_record, JObj []]) \<and>
   parse_from_file [''out.jsonl'' \<mapsto> mixed_output] json_loads ''out.jsonl'' User_model =
     Inr ([User ''Bob'' 41, User ''Bob'' 41], [anthropic_record, JObj []])"
proof -
  let ?ds = "[openai_record, anthropic_record, JObj [], openai_record]"
  have s: "map json_loads (splitlines mixed_output) = map Some ?ds"
    by code_simp
  have f: "map json_loads (file_lines mixed_output) = map Some ?ds"
    by code_simp
  have p: "[''out.jsonl'' \<mapsto> mixed_output] ''out.jsonl'' = Some mixed_output"
    by simp
  have ok: "List.map_filter
              (\<lambda>d. case parse_from_string_record User_model json_loads d of
                      Inr m \<Rightarrow> Some m | Inl e \<Rightarrow> None) ?ds = [User ''Bob'' 41, User ''Bob'' 41]"
    by code_simp
  have bad: "filter (\<lambda>d. isl (parse_from_string_record User_model json_loads d)) ?ds =
               [anthropic_record, JObj []]"
    by code_simp
  show ?thesis
    using s f p ok bad
      record_errors_are_isolated
        [of json_loads mixed_output ?ds User_model "[''out.jsonl'' \<mapsto> mixed_output]" "''out.jsonl''"]
    by (simp add: record_bodies_agree)
qed

text \<open>
  C4. When the call returns, the two lists together have as many entries as there were
  lines: every line examined went to exactly one of them.
\<close>

theorem every_line_is_counted_once:
  "(parse_from_string loads content response_model = Inr (res, error_objs) \<longrightarrow>
      length res + length error_objs = length (splitlines content)) \<and>
   (fs file_path = Some content \<and>
    parse_from_file fs loads file_path response_model = Inr (res, error_objs) \<longrightarrow>
      length res + length error_objs = length (file_lines content))"
  using string_loop_length[of response_model loads _ "[]" "[]" res error_objs]
  by (auto simp: parse_from_string_def parse_from_file_def file_loop_is_string_loop)

theorem every_line_is_counted_once_witness:
  "parse_from_string json_loads mixed_output User_model =
     Inr ([User ''Bob'' 41, User ''Bob'' 41], [anthropic_record, JObj []]) \<and>
   parse_from_file [''out.jsonl'' \<mapsto> mixed_output] json_loads ''out.jsonl'' User_model =
     Inr ([User ''Bob'' 41, User ''Bob'' 41], [anthropic_record, JObj []]) \<and>
   length [User ''Bob'' 41, User ''Bob'' 41] + length [anthropic_record, JObj []] =
     length (splitlines mixed_output) \<and>
   length [User ''Bob'' 41, User ''Bob'' 41] + length [anthropic_record, JObj []] =
     length (file_lines mixed_output)"
proof -
  have s: "parse_from_string json_loads mixed_output User_model =
             Inr ([User ''Bob'' 41, User ''Bob'' 41], [anthropic_record, JObj []])"
    by code_simp
  have f: "parse_from_file [''out.jsonl'' \<mapsto> mixed_output] json_loads ''out.jsonl'' User_model =
             Inr ([User ''Bob'' 41, User ''Bob'' 41], [anthropic_record, JObj []])"
    by code_simp
  have p: "[''out.jsonl'' \<mapsto> mixed_output] ''out.jsonl'' = Some mixed_output"
    by simp
  show ?thesis
    using s f p
      every_line_is_counted_once
        [of json_loads mixed_output User_model "[User ''Bob'' 41, User ''Bob'' 41]"
            "[anthropic_record, JObj []]" "[''out.jsonl'' \<mapsto> mixed_output]" "''out.jsonl''"]
    by blast
qed

text \<open>
  C9. The claim: for every text, \<^verbatim>\<open>parse_from_file\<close> on a file holding it and
  \<^verbatim>\<open>parse_from_string\<close> on it return the same. The bodies of the two loops are the same
  (\<open>record_bodies_agree\<close>), but the lines are not: \<^verbatim>\<open>parse_from_string\<close> cuts the text with
  \<^verbatim>\<open>splitlines\<close>, which also cuts at a form feed, a vertical tab, the three separators and
  the next-line character, where the iteration over the file cuts at newlines only. The
  theorem evaluates both entry points on two texts. \<^const>\<open>next_line_output\<close> is one line of
  valid JSON with U+0085 inside a string: from the file the record is parsed, from the
  string the line is cut in two pieces that are not JSON and the call raises.
  \<^const>\<open>form_feed_output\<close> is two records with a form feed between them: from the file it is
  one line that is not JSON and the call raises, from the string both records are returned
  as errors.
\<close>

theorem entry_points_differ_on_line_boundaries:
  "parse_from_file [''out.jsonl'' \<mapsto> next_line_output] json_loads ''out.jsonl'' User_model =
     Inr ([User ''Bob'' 41], []) \<and>
   parse_from_string json_loads next_line_output User_model = Inl JSONDecodeError \<and>
   parse_from_file [''out.jsonl'' \<mapsto> form_feed_output] json_loads ''out.jsonl'' User_model =
     Inl JSONDecodeError \<and>
   parse_from_string json_loads form_feed_output User_model = Inr ([], [JObj [], JObj []])"
  by code_simp

section \<open>The claims on the tool schemas and the request body\<close>

lemma py_contains_JObj: "py_contains k (JObj kvs) = Inr (map_of kvs k \<noteq> None)"
  by (simp add: map_of_eq_None_iff)

lemma map_tools_loop_fails:
  "x \<in> set items \<Longrightarrow> isl (map_tool x) \<Longrightarrow> isl (map_tools_loop items acc)"
  by (induction items arbitrary: acc) (auto split: sum.splits)

text \<open>
  C5. The claim: an object with the function wrapper (a key whose value holds name,
  description and parameters) is classified as the generic tool. \<^verbatim>\<open>Tool\<close> declares a field
  \<^verbatim>\<open>type: str\<close> with no default, so \<^verbatim>\<open>Tool(**tool_data)\<close> refuses a wrapper with no type:
  on \<^const>\<open>untyped_function_object\<close> the classification raises a validation error.
\<close>

theorem function_wrapper_without_type_is_refused:
  "map_tool untyped_function_object = Inl ValidationError"
  by code_simp

text \<open>
  C5, amended. An object with a string \<^verbatim>\<open>type\<close> and a key \<^verbatim>\<open>function\<close> whose value holds a
  string name, a string description and parameters is classified as \<^verbatim>\<open>Tool\<close>, with that
  type and the fields of the nested object. An object with no key \<^verbatim>\<open>function\<close>, a string
  name, a string description and a key \<^verbatim>\<open>input_schema\<close> is classified as \<^verbatim>\<open>AnthropicTool\<close>
  with these three fields. An object with neither key \<^verbatim>\<open>function\<close> nor key
  \<^verbatim>\<open>input_schema\<close> raises \<^verbatim>\<open>ValueError("Unknown tool format")\<close>, and a request body whose
  list of tools holds it is not built.
\<close>

theorem tool_classification:
  "(map_of kvs ''type'' = Some (JStr t) \<and> map_of kvs ''function'' = Some (JObj f) \<and>
    map_of f ''name'' = Some (JStr n) \<and> map_of f ''description'' = Some (JStr d) \<and>
    map_of f ''parameters'' = Some p \<longrightarrow>
      map_tool (JObj kvs) = Inr (Tool t (Function n d p))) \<and>
   (map_of kvs ''function'' = None \<and> map_of kvs ''name'' = Some (JStr n) \<and>
    map_of kvs ''description'' = Some (JStr d) \<and> map_of kvs ''input_schema'' = Some s \<longrightarrow>
      map_tool (JObj kvs) = Inr (AnthropicTool n d s)) \<and>
   (map_of kvs ''function'' = None \<and> map_of kvs ''input_schema'' = None \<longrightarrow>
      map_tool (JObj kvs) = Inl ValueError \<and>
      (\<forall>vs items. map_of vs ''tools'' = Some (JArr items) \<and> JObj kvs \<in> set items \<longrightarrow>
         isl (map_tools vs) \<and> isl (RequestBody_init vs)))"
proof (intro conjI impI)
  assume "map_of kvs ''type'' = Some (JStr t) \<and> map_of kvs ''function'' = Some (JObj f) \<and>
    map_of f ''name'' = Some (JStr n) \<and> map_of f ''description'' = Some (JStr d) \<and>
    map_of f ''parameters'' = Some p"
  then show "map_tool (JObj kvs) = Inr (Tool t (Function n d p))"
    by (simp add: map_tool_def py_contains_JObj del: py_contains.simps(1))
next
  assume "map_of kvs ''function'' = None \<and> map_of kvs ''name'' = Some (JStr n) \<and>
    map_of kvs ''description'' = Some (JStr d) \<and> map_of kvs ''input_schema'' = Some s"
  then show "map_tool (JObj kvs) = Inr (AnthropicTool n d s)"
    by (simp add: map_tool_def py_contains_JObj del: py_contains.simps(1))
next
  assume "map_of kvs ''function'' = None \<and> map_of kvs ''input_schema'' = None"
  then show v: "map_tool (JObj kvs) = Inl ValueError"
    by (simp add: map_tool_def py_contains_JObj del: py_contains.simps(1))
  show "\<forall>vs items. map_of vs ''tools'' = Some (JArr items) \<and> JObj kvs \<in> set items \<longrightarrow>
         isl (map_tools vs) \<and> isl (RequestBody_init vs)"
  proof (intro allI impI)
    fix vs items
    assume h: "map_of vs ''tools'' = Some (JArr items) \<and> JObj kvs \<in> set items"
    then have "isl (map_tools_loop items [])"
      using map_tools_loop_fails[of "JObj kvs" items "[]"] v by simp
    then have m: "isl (map_tools vs)"
      using h by (simp add: map_tools_def)
    then show "isl (map_tools vs) \<and> isl (RequestBody_init vs)"
      by (auto simp: RequestBody_init_def split: sum.splits py_error.splits)
  qed
qed

theorem tool_classification_witness:
  "map_tool (hd generic_tool_objects) = Inr (Tool ''function'' (Function ''User'' ''A user'' user_schema)) \<and>
   map_tool anthropic_tool_object = Inr (AnthropicTool ''User'' ''A user'' user_schema) \<and>
   map_tool shapeless_object = Inl ValueError \<and>
   isl (RequestBody_init (no_tools_values @ [(''tools'', JArr [anthropic_tool_object, shapeless_object])]))"
proof -
  let ?f = "[(''name'', JStr ''User''), (''description'', JStr ''A user''), (''parameters'', user_schema)]"
  let ?g = "[(''type'', JStr ''function''), (''function'', JObj ?f)]"
  let ?a = "[(''name'', JStr ''User''), (''description'', JStr ''A user''), (''input_schema'', user_schema)]"
  let ?u = "[(''title'', JStr ''User'')]"
  let ?vs = "no_tools_values @ [(''tools'', JArr [anthropic_tool_object, shapeless_object])]"
  have g: "hd generic_tool_objects = JObj ?g"
    by (simp add: generic_tool_objects_def)
  have t: "map_of ?vs ''tools'' = Some (JArr [anthropic_tool_object, JObj ?u])"
    by (simp add: no_tools_values_def shapeless_object_def)
  have 1: "map_tool (JObj ?g) = Inr (Tool ''function'' (Function ''User'' ''A user'' user_schema))"
    using tool_classification[of ?g "''function''" ?f "''User''" "''A user''" user_schema]
    by simp
  have 2: "map_tool (JObj ?a) = Inr (AnthropicTool ''User'' ''A user'' user_schema)"
    using tool_classification[of ?a _ _ "''User''" "''A user''" _ user_schema]
    by simp
  have 3: "map_tool (JObj ?u) = Inl ValueError \<and> isl (RequestBody_init ?vs)"
    using tool_classification[of ?u] t by simp
  show ?thesis
    using 1 2 3 by (simp add: g anthropic_tool_object_def shapeless_object_def)
qed

text \<open>
  C10. A request body built from keyword arguments with no key \<^verbatim>\<open>tools\<close> has the empty list
  as its tools, and its dump holds the empty list under \<^verbatim>\<open>tools\<close>; the tools of a body that
  was built are never \<^verbatim>\<open>None\<close>. With \<^verbatim>\<open>tools=None\<close> the construction fails: \<^verbatim>\<open>map_tools\<close>
  iterates over \<^verbatim>\<open>None\<close>, a \<^verbatim>\<open>TypeError\<close>.
\<close>

theorem tools_default_is_empty_list:
  "(map_of vs ''tools'' = None \<and> RequestBody_init vs = Inr rb \<longrightarrow>
      tools rb = Some [] \<and> py_getitem (RequestBody_dump rb) (Key ''tools'') = Inr (JArr [])) \<and>
   (RequestBody_init vs = Inr rb \<longrightarrow> tools rb \<noteq> None) \<and>
   (map_of vs ''tools'' = Some JNull \<longrightarrow> RequestBody_init vs = Inl TypeError)"
  by (auto simp: RequestBody_init_def map_tools_def RequestBody_dump_def
      split: sum.splits py_error.splits)

theorem tools_default_is_empty_list_witness:
  "map_of no_tools_values ''tools'' = None \<and>
   RequestBody_init no_tools_values = Inr no_tools_body \<and>
   tools no_tools_body = Some [] \<and>
   py_getitem (RequestBody_dump no_tools_body) (Key ''tools'') = Inr (JArr []) \<and>
   map_of (no_tools_values @ [(''tools'', JNull)]) ''tools'' = Some JNull \<and>
   RequestBody_init (no_tools_values @ [(''tools'', JNull)]) = Inl TypeError"
proof -
  have a: "map_of no_tools_values ''tools'' = None"
    by (simp add: no_tools_values_def)
  have b: "RequestBody_init no_tools_values = Inr no_tools_body"
    by code_simp
  have c: "map_of (no_tools_values @ [(''tools'', JNull)]) ''tools'' = Some JNull"
    by (simp add: no_tools_values_def)
  show ?thesis
    using a b c
      tools_default_is_empty_list[of no_tools_values no_tools_body]
      tools_default_is_empty_list[of "no_tools_values @ [(''tools'', JNull)]" no_tools_body]
    by blast
qed

section \<open>The round trip of a request body\<close>

lemma map_tools_loop_Inr:
  "map_tools_loop items acc = Inr ts \<Longrightarrow>
   \<exists>new. ts = acc @ new \<and> length new = length items \<and>
         (\<forall>i < length items. map_tool (items ! i) = Inr (new ! i))"
proof (induction items arbitrary: acc)
  case Nil
  then show ?case by simp
next
  case (Cons x xs)
  from Cons.prems obtain t where t: "map_tool x = Inr t"
    and rest: "map_tools_loop xs (acc @ [t]) = Inr ts"
    by (auto split: sum.splits)
  from Cons.IH[OF rest] obtain new where new: "ts = (acc @ [t]) @ new" "length new = length xs"
    "\<forall>i < length xs. map_tool (xs ! i) = Inr (new ! i)"
    by blast
  have "\<forall>i < length (x # xs). map_tool ((x # xs) ! i) = Inr ((t # new) ! i)"
    using t new(3) by (simp add: nth_Cons split: nat.splits)
  then show ?case
    using new(1,2) by (intro exI[of _ "t # new"]) simp
qed

lemma map_tool_tool_dump: "map_tool (tool_dump t) = Inr t"
proof (cases t)
  case (Tool ty f)
  then show ?thesis by (cases f) (simp add: map_tool_def)
next
  case (AnthropicTool n d s)
  then show ?thesis by (simp add: map_tool_def)
qed

lemma map_tools_loop_dump: "map_tools_loop (map tool_dump ts) acc = Inr (acc @ ts)"
  by (induction ts arbitrary: acc) (simp_all add: map_tool_tool_dump)

lemma messages_field_dump: "messages_field (Some (JArr (map JObj ms))) = Inr ms"
  by (simp add: list_all_iff comp_def)

lemma max_tokens_field_dump: "max_tokens_field (Some (opt_dump JInt mt)) = Inr mt"
  by (cases mt) simp_all

lemma temperature_field_dump: "temperature_field (Some (opt_dump JFloat t)) = Inr t"
  by (cases t) simp_all

lemma tool_choice_field_dump: "tool_choice_field (Some (opt_dump JObj tc)) = Inr tc"
  by (cases tc) simp_all

lemma RequestBody_init_tools:
  "RequestBody_init vs = Inr rb \<Longrightarrow> \<exists>ts. tools rb = Some ts \<and> map_tools vs = Inr ts"
  by (auto simp: RequestBody_init_def split: sum.splits py_error.splits)

lemma RequestBody_init_dump:
  assumes "tools rb = Some ts"
  shows "(case RequestBody_dump rb of JObj kvs \<Rightarrow> RequestBody_init kvs | _ \<Rightarrow> Inl TypeError) = Inr rb"
proof -
  have "messages_field (Some (JArr (map JObj (messages rb)))) = Inr (messages rb)"
    by (rule messages_field_dump)
  then show ?thesis
    using assms
    by (cases rb)
       (simp add: RequestBody_dump_def RequestBody_init_def map_tools_def map_tools_loop_dump
          max_tokens_field_dump temperature_field_dump tool_choice_field_dump
          del: messages_field.simps)
qed

text \<open>
  C8. A request body that was built from keyword arguments, printed as JSON text and built
  again from the text read back, is the same request body, given that the text read back is
  the value printed (the round trip of the JSON library). When the keyword arguments hold
  a list of \<open>N\<close> tool objects, the body holds \<open>N\<close> tools, the \<open>i\<close>-th being the
  classification of the \<open>i\<close>-th object; so the body built again has the same \<open>N\<close> tools in
  the same order, with the same names, descriptions and parameters.
\<close>

theorem request_body_round_trip:
  assumes "RequestBody_init vs = Inr rb"
    and "loads (dumps (RequestBody_dump rb)) = Some (RequestBody_dump rb)"
  shows "RequestBody_from_json loads (RequestBody_model_dump_json dumps rb) = Inr rb \<and>
         (\<forall>items. map_of vs ''tools'' = Some (JArr items) \<longrightarrow>
            (\<exists>ts. tools rb = Some ts \<and> length ts = length items \<and>
                  (\<forall>i < length items. map_tool (items ! i) = Inr (ts ! i))))"
proof (intro conjI allI impI)
  from RequestBody_init_tools[OF assms(1)] obtain ts where ts: "tools rb = Some ts"
    and m: "map_tools vs = Inr ts"
    by blast
  have "RequestBody_from_json loads (RequestBody_model_dump_json dumps rb) =
          (case RequestBody_dump rb of JObj kvs \<Rightarrow> RequestBody_init kvs | _ \<Rightarrow> Inl TypeError)"
    using assms(2)
    by (simp add: RequestBody_from_json_def RequestBody_model_dump_json_def RequestBody_dump_def)
  then show "RequestBody_from_json loads (RequestBody_model_dump_json dumps rb) = Inr rb"
    using RequestBody_init_dump[OF ts] by simp
  fix items
  assume "map_of vs ''tools'' = Some (JArr items)"
  with m have "map_tools_loop items [] = Inr ts"
    by (simp add: map_tools_def)
  from map_tools_loop_Inr[OF this] ts
  show "\<exists>ts. tools rb = Some ts \<and> length ts = length items \<and>
              (\<forall>i < length items. map_tool (items ! i) = Inr (ts ! i))"
    by auto
qed

theorem request_body_round_trip_witness:
  "RequestBody_init two_tools_values = Inr two_tools_body \<and>
   json_loads (json_dumps (RequestBody_dump two_tools_body)) = Some (RequestBody_dump two_tools_body) \<and>
   RequestBody_from_json json_loads (RequestBody_model_dump_json json_dumps two_tools_body) =
     Inr two_tools_body \<and>
   tools two_tools_body =
     Some [Tool ''function'' (Function ''User'' ''A user'' user_schema),
           Tool ''function'' (Function ''Ping'' ''No arguments'' (JObj []))]"
proof -
  have a: "RequestBody_init two_tools_values = Inr two_tools_body"
    by code_simp
  have b: "json_loads (json_dumps (RequestBody_dump two_tools_body)) =
             Some (RequestBody_dump two_tools_body)"
    by code_simp
  have c: "tools two_tools_body =
     Some [Tool ''function'' (Function ''User'' ''A user'' user_schema),
           Tool ''function'' (Function ''Ping'' ''No arguments'' (JObj []))]"
    by (simp add: two_tools_body_def)
  show ?thesis
    using a b c request_body_round_trip[OF a, of json_loads json_dumps]
    by blast
qed

section \<open>Lemmas on the batch writer\<close>

lemma map_of_call_values:
  "\<not> list_ex (\<lambda>k. k \<in> set [''model'', ''messages'', ''max_tokens'', ''temperature'']) (map fst kwargs) \<Longrightarrow>
   map_of ([(''model'', a), (''messages'', b), (''max_tokens'', c), (''temperature'', d)] @ kwargs) ''tools'' =
     map_of kwargs ''tools'' \<and>
   map_of ([(''model'', a), (''messages'', b), (''max_tokens'', c), (''temperature'', d)] @ kwargs) ''tool_choice'' =
     map_of kwargs ''tool_choice''"
  by simp


























section \<open>The claims on the batch writer\<close>





end
